theory Spec2Isabelle
  imports Main
begin

section \<open>The server name ACL of src/acl/ServerName.cc\<close>

subsection \<open>Certificate name fields and the callback's local buffer\<close>

text \<open>
  An \<open>ASN1_STRING\<close> carries a declared length (a C \<open>int\<close>) and a pointer to its raw
  bytes. The bytes behind the pointer are a list; reading at an offset the list does not
  have is a read out of bounds. The declared length never exceeds 1023 where it is used
  as a loop bound or an index, so the C \<open>int\<close> is an unbounded \<open>int\<close> here.
\<close>

record ASN1_STRING =
  asn1_length :: int
  asn1_data :: "char list"

text \<open>What C leaves undefined is a value of its own: every access is checked.\<close>

datatype mem_fault = ReadOutOfBounds | WriteOutOfBounds | UninitialisedRead

definition NUL :: char where
  "NUL = CHR 0x00"

text \<open>\<open>sizeof(cn)\<close> for \<open>char cn[1024]\<close>.\<close>

definition cn_size :: nat where
  "cn_size = 1024"

text \<open>
  The local array \<open>char cn[1024]\<close> starts uninitialised: a cell is \<open>None\<close> until it is
  written. \<open>store\<close> is a write through \<open>cn + i\<close>.
\<close>

type_synonym buffer = "char option list"

definition store :: "buffer \<Rightarrow> int \<Rightarrow> char \<Rightarrow> mem_fault + buffer" where
  "store buf i c =
     (if 0 \<le> i \<and> i < int (length buf) then Inr (buf[nat i := Some c])
      else Inl WriteOutOfBounds)"

text \<open>
  Reading the buffer as a C string, as \<open>debugs\<close> and the matcher do with the pointer
  \<open>cn\<close>: the characters before the first NUL.
\<close>

fun c_str :: "buffer \<Rightarrow> mem_fault + string" where
  "c_str [] = Inl ReadOutOfBounds"
| "c_str (None # rest) = Inl UninitialisedRead"
| "c_str (Some c # rest) =
     (if c = NUL then Inr []
      else (case c_str rest of Inl f \<Rightarrow> Inl f | Inr s \<Rightarrow> Inr (c # s)))"

text \<open>
  The copy loop of \<open>check_cert_domain\<close>,
  \<^verbatim>\<open>for (int i = 0; i < cn_data->length; ++i, ++d, ++s) {
      if (*s == '\0') return 1;
      *d = *s; }\<close>
  with \<open>s = data + i\<close> and \<open>d = cn + i\<close>. It leaves by the \<open>return 1\<close>, by the loop
  condition, or by an access out of bounds.
\<close>

datatype loop_exit = LoopFault mem_fault | LoopReturn1 buffer | LoopDone buffer

function copy_loop :: "char list \<Rightarrow> int \<Rightarrow> nat \<Rightarrow> buffer \<Rightarrow> loop_exit" where
  "copy_loop src len i cn =
     (if int i < len then
        (if length src \<le> i then LoopFault ReadOutOfBounds
         else if src ! i = NUL then LoopReturn1 cn
         else (case store cn (int i) (src ! i) of
                 Inl f \<Rightarrow> LoopFault f
               | Inr cn' \<Rightarrow> copy_loop src len (Suc i) cn'))
      else LoopDone cn)"
  by pat_completeness auto
termination
  by (relation "measure (\<lambda>(src, len, i, cn). nat (len - int i))") auto

declare copy_loop.simps [simp del]

text \<open>
  What one call of the callback did: the value it returned, the final contents of its
  local buffer, and the arguments of its calls of \<open>data->match\<close>, in order.
\<close>

record cb_result =
  retval :: int
  cn_buf :: buffer
  matched :: "string option list"

text \<open>
  \<open>check_cert_domain<MatchType>\<close>. The ACL data behind \<open>check_data\<close> is its virtual
  \<open>match\<close>, a function of the \<open>const char *\<close> handed to it (\<open>None\<close> is the null pointer).
  \<open>addr_type\<close> is unused, as in the source.
\<close>

definition check_cert_domain ::
  "(string option \<Rightarrow> bool) \<Rightarrow> ASN1_STRING \<Rightarrow> 'addr \<Rightarrow> mem_fault + cb_result" where
  "check_cert_domain data cn_data addr_type =
     (let cn = replicate cn_size None in
      if asn1_length cn_data > int cn_size - 1 then
        Inr \<lparr>retval = 1, cn_buf = cn, matched = []\<rparr>
      else
        (case copy_loop (asn1_data cn_data) (asn1_length cn_data) 0 cn of
           LoopFault f \<Rightarrow> Inl f
         | LoopReturn1 cn1 \<Rightarrow> Inr \<lparr>retval = 1, cn_buf = cn1, matched = []\<rparr>
         | LoopDone cn1 \<Rightarrow>
             (case store cn1 (asn1_length cn_data) NUL of
                Inl f \<Rightarrow> Inl f
              | Inr cn2 \<Rightarrow>
                  (case c_str cn2 of
                     Inl f \<Rightarrow> Inl f
                   | Inr s \<Rightarrow>
                       if data (Some s)
                       then Inr \<lparr>retval = 0, cn_buf = cn2, matched = [Some s]\<rparr>
                       else Inr \<lparr>retval = 1, cn_buf = cn2, matched = [Some s]\<rparr>))))"

text \<open>The raw bytes of a field within its declared length.\<close>

definition raw_bytes :: "ASN1_STRING \<Rightarrow> char list" where
  "raw_bytes cn_data = take (nat (asn1_length cn_data)) (asn1_data cn_data)"


subsection \<open>The domain matcher: ACLServerNameData::match\<close>

text \<open>
  Modelled from the spec: the character folding behind "comparison is case-insensitive
  per domain-name convention" (section 3). The comparison itself is in another file of
  the repository.
\<close>

definition xtolower :: "char \<Rightarrow> char" where
  "xtolower c =
     (let n = (of_char c :: nat) in if 65 \<le> n \<and> n \<le> 90 then char_of (n + 32) else c)"

text \<open>
  Modelled from the spec: "an exact suffix match" (sections 4.1 and 8) is a prefix test
  on the reversed strings; part of the comparison that is in another file.
\<close>

fun starts_with :: "'a list \<Rightarrow> 'a list \<Rightarrow> bool" where
  "starts_with [] ys = True"
| "starts_with (x # xs) [] = False"
| "starts_with (x # xs) (y # ys) = (x = y \<and> starts_with xs ys)"

text \<open>
  Modelled from the spec: the suffix test of the comparison, anchored at the end of the
  candidate ("not a substring test", section 4.1).
\<close>

definition ends_with :: "'a list \<Rightarrow> 'a list \<Rightarrow> bool" where
  "ends_with p s = starts_with (rev p) (rev s)"

text \<open>The one flag of the comparison that the source names.\<close>

datatype MatchDomainNameFlags = mdnHonorWildcards

text \<open>
  Modelled from the spec: \<open>matchDomainName\<close> is called by the source and defined in
  another file of the repository. The spec (sections 3, 4.1 and 8) says of it: the
  comparison is case-insensitive; the candidate must be non-empty, and an empty
  candidate matches nothing; a pattern matches a candidate when it equals the
  candidate, or when it starts with the wildcard marker (a dot) and what follows the
  marker is the candidate's trailing labels (\<open>.example.com\<close> matches \<open>a.b.example.com\<close>
  and not \<open>notexample.com\<close>). A match is the value 0; the spec does not describe the
  sign returned otherwise, which only orders the search, so the model returns 1 there.
\<close>

definition matchDomainName :: "string \<Rightarrow> string \<Rightarrow> MatchDomainNameFlags \<Rightarrow> int" where
  "matchDomainName h d flags =
     (let hl = map xtolower h; dl = map xtolower d in
      if h = [] then 1
      else if hl = dl then 0
      else if d \<noteq> [] \<and> hd d = CHR ''.'' \<and> (hl = tl dl \<or> ends_with dl hl) then 0
      else 1)"

text \<open>
  Modelled from the spec: the search tree and its \<open>find\<close> are in another file of the
  repository. Section 4.1: the result is a pattern of the set that the comparison
  matches, if there is one. The tree is the list of its elements.
\<close>

definition find_splay :: "'a list \<Rightarrow> 'a \<Rightarrow> ('a \<Rightarrow> 'a \<Rightarrow> int) \<Rightarrow> 'a option" where
  "find_splay tree v compare = List.find (\<lambda>d. compare v d = 0) tree"

text \<open>From the source: the comparison handed to the tree search.\<close>

definition aclHostDomainCompare :: "string \<Rightarrow> string \<Rightarrow> int" where
  "aclHostDomainCompare a b = matchDomainName a b mdnHonorWildcards"

text \<open>
  From the source: \<open>ACLServerNameData::match\<close>. The object is its pattern set \<open>domains\<close>;
  \<open>host\<close> is a \<open>const char *\<close>, \<open>None\<close> when null.
\<close>

record ACLServerNameData =
  domains :: "string list"

definition ACLServerNameData_match :: "ACLServerNameData \<Rightarrow> string option \<Rightarrow> bool" where
  "ACLServerNameData_match self host =
     (case host of
        None \<Rightarrow> False
      | Some h \<Rightarrow>
          (let result = find_splay (domains self) h aclHostDomainCompare
           in result \<noteq> None))"

subsection \<open>The check: Acl::ServerNameCheck\<close>

text \<open>
  The objects the check reads. A pointer that may be null is an option. The certificate
  type \<open>X509\<close> belongs to the TLS library and stays a type parameter \<open>'x\<close>.
  \<open>tlsClientSni\<close> is an \<open>SBuf\<close>, a counted buffer that may hold any byte. A
  \<open>const char *\<close> is modelled by the C string it points to.
\<close>

record Uri =
  host :: "string option"

record HttpRequest =
  url :: Uri

record 'x ServerBump =
  serverCert :: "'x option"

record 'x ConnStateData =
  tlsClientSni :: string
  serverBump :: "'x ServerBump option"

record 'x ACLFilledChecklist =
  request :: "HttpRequest option"
  conn :: "'x ConnStateData option"

record ServerNameCheck =
  useClientRequested :: bool
  useServerProvided :: bool
  useConsensus :: bool

text \<open>
  The calls the check makes to its collaborators, in order, are part of its result; an
  \<open>assert\<close> that fails, or a failure inside the certificate enumeration, ends it without
  a value.
\<close>

datatype 'x call =
    Call_checkX509ServerValidity 'x "string option"
  | Call_matchX509CommonNames 'x
  | Call_data_match "string option"

record 'x match_result =
  ret :: int
  calls :: "'x call list"

datatype 'e match_failure = AssertionFailed | EnumerationFailed 'e

text \<open>\<open>conn->serverBump() ? conn->serverBump()->serverCert.get() : nullptr\<close>\<close>

definition peer_cert :: "'x ConnStateData \<Rightarrow> 'x option" where
  "peer_cert c = (case serverBump c of None \<Rightarrow> None | Some sb \<Rightarrow> serverCert sb)"

text \<open>
  Modelled from the spec: \<open>SBuf::c_str()\<close> is in another file of the repository. It
  hands out the buffer as a \<open>const char *\<close>, the "well-formed string" that section 3
  says a name from the SNI is; read as a C string it ends at the first NUL of the
  buffer, while \<open>isEmpty()\<close> looks at the counted length.
\<close>

definition SBuf_c_str :: "string \<Rightarrow> string" where
  "SBuf_c_str buf = takeWhile (\<lambda>ch. ch \<noteq> NUL) buf"

text \<open>
  Lines 88 to 95 of the source: the value of \<open>clientRequestedServerName\<close>. The host of
  the URL is a \<open>const char *\<close> already; the SNI becomes one by \<open>c_str()\<close>.
\<close>

definition clientRequestedServerName :: "'x ConnStateData \<Rightarrow> HttpRequest \<Rightarrow> string option" where
  "clientRequestedServerName c req =
     (let clientSniKeeper = tlsClientSni c in
      if clientSniKeeper = [] then
        (case host (url req) of
           None \<Rightarrow> None
         | Some h \<Rightarrow> if h \<noteq> [] then Some h else None)
      else Some (SBuf_c_str clientSniKeeper))"

text \<open>
  Lines 113 to 116: \<open>if (!serverName) serverName = "none"; return data->match(serverName);\<close>
  after the calls \<open>before\<close>.
\<close>

definition name_or_none :: "string option \<Rightarrow> string" where
  "name_or_none serverName = (case serverName of None \<Rightarrow> ''none'' | Some n \<Rightarrow> n)"

definition match_serverName ::
  "(string option \<Rightarrow> bool) \<Rightarrow> 'x call list \<Rightarrow> string option \<Rightarrow> 'e match_failure + 'x match_result" where
  "match_serverName data before serverName =
     (let serverName' = name_or_none serverName in
      Inr \<lparr>ret = of_bool (data (Some serverName')),
           calls = before @ [Call_data_match (Some serverName')]\<rparr>)"

text \<open>
  \<open>Acl::ServerNameCheck::match\<close>. \<open>Filled(ch)\<close> is \<open>None\<close> when the checklist is null or is
  not a filled one. The two functions of the TLS support code, \<open>Ssl::checkX509ServerValidity\<close>
  and \<open>Ssl::matchX509CommonNames\<close>, and the check's \<open>data\<close> are parameters.
\<close>

definition ServerNameCheck_match ::
  "('x \<Rightarrow> string option \<Rightarrow> bool) \<Rightarrow>
   ('x \<Rightarrow> (ASN1_STRING \<Rightarrow> 'addr \<Rightarrow> mem_fault + cb_result) \<Rightarrow> 'e + bool) \<Rightarrow>
   ServerNameCheck \<Rightarrow> (string option \<Rightarrow> bool) \<Rightarrow> 'x ACLFilledChecklist option \<Rightarrow>
   'e match_failure + 'x match_result" where
  "ServerNameCheck_match checkX509ServerValidity matchX509CommonNames self data ch =
     (case ch of
        None \<Rightarrow> Inl AssertionFailed
      | Some checklist \<Rightarrow>
     (case request checklist of
        None \<Rightarrow> Inl AssertionFailed
      | Some req \<Rightarrow>
     (case conn checklist of
        None \<Rightarrow> match_serverName data [] None
      | Some c \<Rightarrow>
          (let clientRequested = clientRequestedServerName c req in
           if useConsensus self then
             (case peer_cert c of
                None \<Rightarrow> match_serverName data [] clientRequested
              | Some pc \<Rightarrow>
                  if checkX509ServerValidity pc clientRequested
                  then match_serverName data
                         [Call_checkX509ServerValidity pc clientRequested] clientRequested
                  else match_serverName data
                         [Call_checkX509ServerValidity pc clientRequested] None)
           else if useClientRequested self then match_serverName data [] clientRequested
           else
             (case peer_cert c of
                Some pc \<Rightarrow>
                  (case matchX509CommonNames pc (check_cert_domain data) of
                     Inl e \<Rightarrow> Inl (EnumerationFailed e)
                   | Inr b \<Rightarrow> Inr \<lparr>ret = of_bool b, calls = [Call_matchX509CommonNames pc]\<rparr>)
              | None \<Rightarrow>
                  if \<not> useServerProvided self
                  then match_serverName data [] clientRequested
                  else match_serverName data [] None)))))"

text \<open>
  Modelled from the spec: \<open>Ssl::matchX509CommonNames\<close> is not in the source file. Section 6
  of the spec: it invokes the callback on each CN and subjectAltName of the certificate
  until one returns 0 (match) or all are exhausted. A certificate is here the list of
  those fields, in the order they are enumerated.
\<close>

fun matchX509CommonNames ::
  "(ASN1_STRING \<times> 'addr) list \<Rightarrow> (ASN1_STRING \<Rightarrow> 'addr \<Rightarrow> mem_fault + cb_result)
     \<Rightarrow> mem_fault + bool" where
  "matchX509CommonNames [] check_func = Inr False"
| "matchX509CommonNames ((cn_data, addr_type) # rest) check_func =
     (case check_func cn_data addr_type of
        Inl f \<Rightarrow> Inl f
      | Inr r \<Rightarrow> if retval r = 0 then Inr True else matchX509CommonNames rest check_func)"

text \<open>\<open>Acl::ServerNameCheck::valid\<close>\<close>

definition ServerNameCheck_valid :: "ServerNameCheck \<Rightarrow> bool" where
  "ServerNameCheck_valid self =
     (let optionCount = (0 :: int);
          optionCount = (if useClientRequested self then optionCount + 1 else optionCount);
          optionCount = (if useServerProvided self then optionCount + 1 else optionCount);
          optionCount = (if useConsensus self then optionCount + 1 else optionCount)
      in if optionCount > 1 then False else True)"


subsection \<open>Example configurations and connections\<close>

text \<open>
  The inputs of the spec's scenarios (section 8): a pattern set, certificates given by
  their name fields, a validity oracle that accepts the names the certificate carries,
  checklists and policies.
\<close>

definition ex_patterns :: ACLServerNameData where
  "ex_patterns = \<lparr>domains = [''.example.com'', ''plain.org'']\<rparr>"

definition ex_field :: "string \<Rightarrow> ASN1_STRING" where
  "ex_field s = \<lparr>asn1_length = int (length s), asn1_data = s\<rparr>"

definition ex_cert :: "string list \<Rightarrow> (ASN1_STRING \<times> unit) list" where
  "ex_cert names = map (\<lambda>s. (ex_field s, ())) names"

definition ex_validity :: "(ASN1_STRING \<times> unit) list \<Rightarrow> string option \<Rightarrow> bool" where
  "ex_validity cert name =
     (name \<in> set (map (\<lambda>(cn_data, t). Some (raw_bytes cn_data)) cert))"

definition ex_checklist ::
  "string \<Rightarrow> string \<Rightarrow> (ASN1_STRING \<times> unit) list option
     \<Rightarrow> (ASN1_STRING \<times> unit) list ACLFilledChecklist" where
  "ex_checklist sni h cert =
     \<lparr>request = Some \<lparr>url = \<lparr>host = Some h\<rparr>\<rparr>,
      conn = Some \<lparr>tlsClientSni = sni, serverBump = Some \<lparr>serverCert = cert\<rparr>\<rparr>\<rparr>"

definition ex_policy :: "bool \<Rightarrow> bool \<Rightarrow> bool \<Rightarrow> ServerNameCheck" where
  "ex_policy c s k = \<lparr>useClientRequested = c, useServerProvided = s, useConsensus = k\<rparr>"


section \<open>Properties\<close>

subsection \<open>The copy loop\<close>

lemma copy_loop_nul:
  "int j < len \<Longrightarrow> len \<le> int (length cn) \<Longrightarrow> i \<le> j \<Longrightarrow> j < length src \<Longrightarrow> src ! j = NUL
   \<Longrightarrow> \<exists>buf. copy_loop src len i cn = LoopReturn1 buf \<and> length buf = length cn"
proof (induction "j - i" arbitrary: i cn)
  case 0
  then have "i = j" by simp
  with 0 show ?case by (subst copy_loop.simps) simp
next
  case (Suc k)
  then have lt: "i < j" by simp
  show ?case
  proof (cases "src ! i = NUL")
    case True
    with Suc.prems lt show ?thesis by (subst copy_loop.simps) simp
  next
    case False
    have st: "store cn (int i) (src ! i) = Inr (cn[i := Some (src ! i)])"
      using Suc.prems lt by (simp add: store_def)
    have "\<exists>buf. copy_loop src len (Suc i) (cn[i := Some (src ! i)]) = LoopReturn1 buf
            \<and> length buf = length (cn[i := Some (src ! i)])"
      using Suc.hyps Suc.prems lt by (intro Suc.hyps(1)) auto
    with False st Suc.prems lt show ?thesis
      by (subst copy_loop.simps) simp
  qed
qed

lemma copy_loop_done:
  "int i \<le> len \<Longrightarrow> len \<le> int (length cn) \<Longrightarrow> nat len \<le> length src
   \<Longrightarrow> NUL \<notin> set (drop i (take (nat len) src))
   \<Longrightarrow> copy_loop src len i cn =
         LoopDone (take i cn @ map Some (drop i (take (nat len) src)) @ drop (nat len) cn)"
proof (induction "nat len - i" arbitrary: i cn)
  case 0
  then have e: "int i = len" by simp
  then have "nat len = i" by simp
  with 0 e show ?case by (subst copy_loop.simps) simp
next
  case (Suc k)
  then have lt: "int i < len" by simp
  then have ilt: "i < nat len" by simp
  have isrc: "i < length src" using ilt Suc.prems by simp
  have dr: "drop i (take (nat len) src) = src ! i # drop (Suc i) (take (nat len) src)"
    using ilt isrc by (simp add: Cons_nth_drop_Suc [symmetric])
  have nn: "src ! i \<noteq> NUL" using Suc.prems(4) dr by auto
  have st: "store cn (int i) (src ! i) = Inr (cn[i := Some (src ! i)])"
    using Suc.prems lt by (simp add: store_def)
  have ih: "copy_loop src len (Suc i) (cn[i := Some (src ! i)]) =
      LoopDone (take (Suc i) (cn[i := Some (src ! i)])
        @ map Some (drop (Suc i) (take (nat len) src))
        @ drop (nat len) (cn[i := Some (src ! i)]))"
    using Suc.hyps Suc.prems lt dr by (intro Suc.hyps(1)) auto
  have icn: "i < length cn" using lt Suc.prems by simp
  have tk: "take (Suc i) (cn[i := Some (src ! i)]) = take i cn @ [Some (src ! i)]"
    using icn by (simp add: take_Suc_conv_app_nth)
  have dp: "drop (nat len) (cn[i := Some (src ! i)]) = drop (nat len) cn"
    using ilt by simp
  show ?case
    using lt isrc nn st ih tk dp dr by (subst copy_loop.simps) simp
qed

lemma c_str_terminated:
  "NUL \<notin> set s \<Longrightarrow> c_str (map Some s @ Some NUL # rest) = Inr s"
  by (induction s) auto

lemma check_cert_domain_retval:
  "check_cert_domain data cn_data addr_type = Inr r \<Longrightarrow> retval r = 0 \<or> retval r = 1"
  by (auto simp: check_cert_domain_def Let_def split: if_splits loop_exit.splits sum.splits)

lemma check_cert_domain_copies:
  assumes len0: "0 \<le> asn1_length cn_data" and len1: "asn1_length cn_data \<le> 1023"
    and avail: "nat (asn1_length cn_data) \<le> length (asn1_data cn_data)"
    and nonul: "NUL \<notin> set (raw_bytes cn_data)"
  shows "check_cert_domain data cn_data addr_type =
           Inr \<lparr>retval = (if data (Some (raw_bytes cn_data)) then 0 else 1),
                cn_buf = map Some (raw_bytes cn_data) @ [Some NUL]
                           @ replicate (1023 - nat (asn1_length cn_data)) None,
                matched = [Some (raw_bytes cn_data)]\<rparr>"
proof -
  let ?n = "nat (asn1_length cn_data)"
  let ?bytes = "raw_bytes cn_data"
  let ?cn0 = "replicate cn_size (None :: char option)"
  have lb: "length ?bytes = ?n" using avail by (simp add: raw_bytes_def)
  have loop: "copy_loop (asn1_data cn_data) (asn1_length cn_data) 0 ?cn0 =
      LoopDone (map Some ?bytes @ replicate (1024 - ?n) None)"
    using copy_loop_done [of 0 "asn1_length cn_data" ?cn0 "asn1_data cn_data"]
      len0 len1 avail nonul
    by (simp add: raw_bytes_def cn_size_def)
  have rep: "replicate (1024 - ?n) (None :: char option) = None # replicate (1023 - ?n) None"
    using len1 by (simp add: replicate_Suc [symmetric] Suc_diff_le del: replicate_Suc)
  have st: "store (map Some ?bytes @ replicate (1024 - ?n) None) (asn1_length cn_data) NUL =
      Inr (map Some ?bytes @ Some NUL # replicate (1023 - ?n) None)"
    using len0 len1 lb by (simp add: store_def rep list_update_append)
  have cs: "c_str (map Some ?bytes @ Some NUL # replicate (1023 - ?n) None) = Inr ?bytes"
    using nonul by (rule c_str_terminated)
  show ?thesis
    using len1 loop st cs by (simp add: check_cert_domain_def cn_size_def)
qed

subsection \<open>Facts about the examples\<close>

lemma ex_sub_matches: "ACLServerNameData_match ex_patterns (Some ''sub.example.com'')"
  by code_simp

lemma ex_mail_matches: "ACLServerNameData_match ex_patterns (Some ''mail.example.com'')"
  by code_simp

lemma ex_plain_matches: "ACLServerNameData_match ex_patterns (Some ''plain.org'')"
  by code_simp

lemma ex_none_no_match: "\<not> ACLServerNameData_match ex_patterns (Some ''none'')"
  by code_simp

lemma ex_other_no_match: "\<not> ACLServerNameData_match ex_patterns (Some ''other.net'')"
  by code_simp

lemma ex_evil_matches: "ACLServerNameData_match \<lparr>domains = [''evil.com'']\<rparr> (Some ''evil.com'')"
  by code_simp

lemma ex_request: "request (ex_checklist sni h cert) = Some \<lparr>url = \<lparr>host = Some h\<rparr>\<rparr>"
  by (simp add: ex_checklist_def)

lemma ex_conn:
  "conn (ex_checklist sni h cert) =
     Some \<lparr>tlsClientSni = sni, serverBump = Some \<lparr>serverCert = cert\<rparr>\<rparr>"
  by (simp add: ex_checklist_def)

lemma ex_peer_cert:
  "peer_cert \<lparr>tlsClientSni = sni, serverBump = Some \<lparr>serverCert = cert\<rparr>\<rparr> = cert"
  by (simp add: peer_cert_def)

subsection \<open>The certificate name callback\<close>

text \<open>
  C5. A certificate name field whose declared length is greater than 1023 does not fit
  the 1024-byte buffer with its terminator: \<open>check_cert_domain\<close> returns 1, a value and
  not a fault, whatever the ACL data is. No cell of the buffer has been written and the
  matcher has not been called.
\<close>

theorem check_cert_domain_oversize:
  assumes "1023 < asn1_length cn_data"
  shows "check_cert_domain data cn_data addr_type =
           Inr \<lparr>retval = 1, cn_buf = replicate 1024 None, matched = []\<rparr>"
  using assms by (simp add: check_cert_domain_def cn_size_def)

theorem check_cert_domain_oversize_witness:
  "1023 < asn1_length (ex_field (replicate 1024 CHR ''a'')) \<and>
   check_cert_domain (\<lambda>h. True) (ex_field (replicate 1024 CHR ''a'')) () =
     Inr \<lparr>retval = 1, cn_buf = replicate 1024 None, matched = []\<rparr>"
proof -
  have h: "1023 < asn1_length (ex_field (replicate 1024 CHR ''a''))"
    by (simp add: ex_field_def)
  show ?thesis
    using h check_cert_domain_oversize [OF h, of "\<lambda>h. True" "()"] by simp
qed

text \<open>
  C1. A certificate name field with a NUL byte among the bytes of its declared length
  makes \<open>check_cert_domain\<close> return 1 without a call of the matcher, for every ACL
  data: such a field matches no pattern. The field \<open>foo\0evil.com\<close> does not match the
  pattern \<open>evil.com\<close>, which the name \<open>evil.com\<close> does match.
\<close>

theorem check_cert_domain_embedded_nul:
  assumes "NUL \<in> set (raw_bytes cn_data)"
  shows "\<exists>buf. check_cert_domain data cn_data addr_type =
           Inr \<lparr>retval = 1, cn_buf = buf, matched = []\<rparr>"
proof (cases "asn1_length cn_data > 1023")
  case True
  then show ?thesis by (simp add: check_cert_domain_def cn_size_def)
next
  case False
  from assms obtain j where j: "j < length (raw_bytes cn_data)" "raw_bytes cn_data ! j = NUL"
    by (auto simp: in_set_conv_nth)
  then have jl: "int j < asn1_length cn_data" and js: "j < length (asn1_data cn_data)"
    and jn: "asn1_data cn_data ! j = NUL"
    by (auto simp: raw_bytes_def)
  have "\<exists>buf. copy_loop (asn1_data cn_data) (asn1_length cn_data) 0 (replicate cn_size None)
          = LoopReturn1 buf \<and> length buf = length (replicate cn_size (None :: char option))"
    using jl js jn False by (intro copy_loop_nul [of j]) (auto simp: cn_size_def)
  then obtain buf where
    "copy_loop (asn1_data cn_data) (asn1_length cn_data) 0 (replicate cn_size None)
       = LoopReturn1 buf"
    by blast
  with False show ?thesis by (simp add: check_cert_domain_def cn_size_def)
qed

theorem check_cert_domain_embedded_nul_witness:
  "NUL \<in> set (raw_bytes (ex_field (''foo'' @ NUL # ''evil.com'')))
   \<and> ACLServerNameData_match \<lparr>domains = [''evil.com'']\<rparr> (Some ''evil.com'')
   \<and> (\<exists>buf. check_cert_domain (ACLServerNameData_match \<lparr>domains = [''evil.com'']\<rparr>)
               (ex_field (''foo'' @ NUL # ''evil.com'')) () =
             Inr \<lparr>retval = 1, cn_buf = buf, matched = []\<rparr>)"
proof -
  have h: "NUL \<in> set (raw_bytes (ex_field (''foo'' @ NUL # ''evil.com'')))"
    by (simp add: raw_bytes_def ex_field_def)
  show ?thesis
    using h ex_evil_matches
      check_cert_domain_embedded_nul
        [OF h, of "ACLServerNameData_match \<lparr>domains = [''evil.com'']\<rparr>" "()"]
    by simp
qed

text \<open>
  C10. A certificate name field that is accepted (a declared length from 0 to 1023, that
  many bytes behind its pointer, no NUL among them) is copied without a fault, so every
  write is inside the 1024-byte buffer: at the end the buffer holds the field's bytes,
  then a NUL at index length, and the cells after it are untouched. The matcher is called
  once, with the string of exactly those bytes, and the value returned is 0 when it
  matches and 1 when it does not. On every input at all, a call that returns a value
  returns 0 or 1.
\<close>

theorem check_cert_domain_accepted:
  "(0 \<le> asn1_length cn_data \<and> asn1_length cn_data \<le> 1023
      \<and> nat (asn1_length cn_data) \<le> length (asn1_data cn_data)
      \<and> NUL \<notin> set (raw_bytes cn_data) \<longrightarrow>
    check_cert_domain data cn_data addr_type =
      Inr \<lparr>retval = (if data (Some (raw_bytes cn_data)) then 0 else 1),
           cn_buf = map Some (raw_bytes cn_data) @ [Some NUL]
                      @ replicate (1023 - nat (asn1_length cn_data)) None,
           matched = [Some (raw_bytes cn_data)]\<rparr>)
   \<and> (\<forall>r. check_cert_domain data cn_data addr_type = Inr r \<longrightarrow> retval r = 0 \<or> retval r = 1)"
  using check_cert_domain_copies [of cn_data data addr_type]
    check_cert_domain_retval [of data cn_data addr_type]
  by blast

theorem check_cert_domain_accepted_witness:
  "check_cert_domain (ACLServerNameData_match ex_patterns) (ex_field ''sub.example.com'') () =
     Inr \<lparr>retval = 0,
          cn_buf = map Some ''sub.example.com'' @ [Some NUL] @ replicate 1008 None,
          matched = [Some ''sub.example.com'']\<rparr>
   \<and> check_cert_domain (ACLServerNameData_match ex_patterns) (ex_field ''other.net'') () =
     Inr \<lparr>retval = 1,
          cn_buf = map Some ''other.net'' @ [Some NUL] @ replicate 1014 None,
          matched = [Some ''other.net'']\<rparr>"
  using check_cert_domain_accepted
      [of "ex_field ''sub.example.com''" "ACLServerNameData_match ex_patterns" "()"]
    check_cert_domain_accepted
      [of "ex_field ''other.net''" "ACLServerNameData_match ex_patterns" "()"]
    ex_sub_matches ex_other_no_match
  by (simp add: raw_bytes_def ex_field_def NUL_def)


subsection \<open>The check's decision\<close>

lemma check_cert_domain_ex_field:
  assumes "length s \<le> 1023" and "NUL \<notin> set s"
  shows "check_cert_domain data (ex_field s) t =
           Inr \<lparr>retval = (if data (Some s) then 0 else 1),
                cn_buf = map Some s @ [Some NUL] @ replicate (1023 - length s) None,
                matched = [Some s]\<rparr>"
  using assms check_cert_domain_copies [of "ex_field s" data t]
  by (simp add: ex_field_def raw_bytes_def)



text \<open>
  C2. With the consensus flag set, on a checklist with a request and a connection: when
  there is no bumped peer certificate, and when there is one and the validity oracle
  accepts the client-requested name, the check returns what the ACL data says of the
  client-requested name (of \<open>none\<close> when that name is absent); when the certificate is
  there and the oracle rejects the name, the check returns what the ACL data says of
  \<open>none\<close>. In all three cases the calls made are listed, and the enumeration of the
  certificate's names is not among them, whatever the enumeration function is.
\<close>

theorem match_consensus:
  assumes "useConsensus self" and "request checklist = Some req" and "conn checklist = Some c"
  shows "(peer_cert c = None \<longrightarrow>
            ServerNameCheck_match chk mx self data (Some checklist) =
              Inr \<lparr>ret = of_bool (data (Some (name_or_none (clientRequestedServerName c req)))),
                   calls = [Call_data_match
                              (Some (name_or_none (clientRequestedServerName c req)))]\<rparr>)
       \<and> (\<forall>pc. peer_cert c = Some pc \<and> chk pc (clientRequestedServerName c req) \<longrightarrow>
            ServerNameCheck_match chk mx self data (Some checklist) =
              Inr \<lparr>ret = of_bool (data (Some (name_or_none (clientRequestedServerName c req)))),
                   calls = [Call_checkX509ServerValidity pc (clientRequestedServerName c req),
                            Call_data_match
                              (Some (name_or_none (clientRequestedServerName c req)))]\<rparr>)
       \<and> (\<forall>pc. peer_cert c = Some pc \<and> \<not> chk pc (clientRequestedServerName c req) \<longrightarrow>
            ServerNameCheck_match chk mx self data (Some checklist) =
              Inr \<lparr>ret = of_bool (data (Some ''none'')),
                   calls = [Call_checkX509ServerValidity pc (clientRequestedServerName c req),
                            Call_data_match (Some ''none'')]\<rparr>)"
  using assms
  by (simp add: ServerNameCheck_match_def match_serverName_def name_or_none_def Let_def)

theorem match_consensus_witness:
  "ServerNameCheck_match ex_validity matchX509CommonNames (ex_policy False False True)
      (ACLServerNameData_match ex_patterns)
      (Some (ex_checklist ''sub.example.com'' [] None)) =
     Inr \<lparr>ret = 1, calls = [Call_data_match (Some ''sub.example.com'')]\<rparr>
   \<and> ServerNameCheck_match ex_validity matchX509CommonNames (ex_policy False False True)
      (ACLServerNameData_match ex_patterns)
      (Some (ex_checklist ''sub.example.com'' [] (Some (ex_cert [''sub.example.com''])))) =
     Inr \<lparr>ret = 1,
          calls = [Call_checkX509ServerValidity (ex_cert [''sub.example.com''])
                     (Some ''sub.example.com''),
                   Call_data_match (Some ''sub.example.com'')]\<rparr>
   \<and> ServerNameCheck_match ex_validity matchX509CommonNames (ex_policy False False True)
      (ACLServerNameData_match ex_patterns)
      (Some (ex_checklist ''sub.example.com'' [] (Some (ex_cert [''plain.org''])))) =
     Inr \<lparr>ret = 0,
          calls = [Call_checkX509ServerValidity (ex_cert [''plain.org''])
                     (Some ''sub.example.com''),
                   Call_data_match (Some ''none'')]\<rparr>"
proof -
  let ?req = "\<lparr>url = \<lparr>host = Some []\<rparr>\<rparr>"
  let ?c = "\<lambda>cert. \<lparr>tlsClientSni = ''sub.example.com'', serverBump = Some \<lparr>serverCert = cert\<rparr>\<rparr>"
  have k: "useConsensus (ex_policy False False True)" by (simp add: ex_policy_def)
  have n: "\<And>cert. clientRequestedServerName (?c cert) ?req = Some ''sub.example.com''"
    by (simp add: clientRequestedServerName_def SBuf_c_str_def NUL_def)
  have v1: "ex_validity (ex_cert [''sub.example.com'']) (Some ''sub.example.com'')"
    by (simp add: ex_validity_def ex_cert_def ex_field_def raw_bytes_def)
  have v2: "\<not> ex_validity (ex_cert [''plain.org'']) (Some ''sub.example.com'')"
    by (simp add: ex_validity_def ex_cert_def ex_field_def raw_bytes_def)
  show ?thesis
    using match_consensus [where chk = ex_validity and mx = matchX509CommonNames
          and data = "ACLServerNameData_match ex_patterns",
          OF k ex_request [of "''sub.example.com''" "[]" "None"]
            ex_conn [of "''sub.example.com''" "[]" "None"]]
      match_consensus [where chk = ex_validity and mx = matchX509CommonNames
          and data = "ACLServerNameData_match ex_patterns",
          OF k ex_request [of "''sub.example.com''" "[]" "Some (ex_cert [''sub.example.com''])"]
            ex_conn [of "''sub.example.com''" "[]" "Some (ex_cert [''sub.example.com''])"]]
      match_consensus [where chk = ex_validity and mx = matchX509CommonNames
          and data = "ACLServerNameData_match ex_patterns",
          OF k ex_request [of "''sub.example.com''" "[]" "Some (ex_cert [''plain.org''])"]
            ex_conn [of "''sub.example.com''" "[]" "Some (ex_cert [''plain.org''])"]]
      v1 v2 ex_sub_matches ex_none_no_match
    by (simp add: n ex_peer_cert name_or_none_def)
qed

text \<open>
  C3. With neither the client-requested nor the consensus flag set, on a checklist with a
  request and a connection: when a bumped peer certificate is there, the check returns
  the result of enumerating the certificate's names with \<open>check_cert_domain\<close> on the
  ACL data (and makes no other call); when there is none and the server-provided flag is
  not set, it returns what the ACL data says of the client-requested name; when there is
  none and the server-provided flag is set, what the ACL data says of \<open>none\<close>.
\<close>

theorem match_default_or_server_provided:
  assumes "\<not> useClientRequested self" and "\<not> useConsensus self"
    and "request checklist = Some req" and "conn checklist = Some c"
  shows "(\<forall>pc. peer_cert c = Some pc \<longrightarrow>
            ServerNameCheck_match chk mx self data (Some checklist) =
              (case mx pc (check_cert_domain data) of
                 Inl e \<Rightarrow> Inl (EnumerationFailed e)
               | Inr b \<Rightarrow> Inr \<lparr>ret = of_bool b, calls = [Call_matchX509CommonNames pc]\<rparr>))
       \<and> (peer_cert c = None \<and> \<not> useServerProvided self \<longrightarrow>
            ServerNameCheck_match chk mx self data (Some checklist) =
              Inr \<lparr>ret = of_bool (data (Some (name_or_none (clientRequestedServerName c req)))),
                   calls = [Call_data_match
                              (Some (name_or_none (clientRequestedServerName c req)))]\<rparr>)
       \<and> (peer_cert c = None \<and> useServerProvided self \<longrightarrow>
            ServerNameCheck_match chk mx self data (Some checklist) =
              Inr \<lparr>ret = of_bool (data (Some ''none'')),
                   calls = [Call_data_match (Some ''none'')]\<rparr>)"
  using assms
  by (simp add: ServerNameCheck_match_def match_serverName_def name_or_none_def Let_def)

theorem match_default_or_server_provided_witness:
  "ServerNameCheck_match ex_validity matchX509CommonNames (ex_policy False False False)
      (ACLServerNameData_match ex_patterns)
      (Some (ex_checklist ''other.net'' []
               (Some (ex_cert [''other.net'', ''mail.example.com''])))) =
     Inr \<lparr>ret = 1,
          calls = [Call_matchX509CommonNames (ex_cert [''other.net'', ''mail.example.com''])]\<rparr>
   \<and> ServerNameCheck_match ex_validity matchX509CommonNames (ex_policy False False False)
      (ACLServerNameData_match ex_patterns)
      (Some (ex_checklist ''sub.example.com'' [] None)) =
     Inr \<lparr>ret = 1, calls = [Call_data_match (Some ''sub.example.com'')]\<rparr>
   \<and> ServerNameCheck_match ex_validity matchX509CommonNames (ex_policy False True False)
      (ACLServerNameData_match ex_patterns)
      (Some (ex_checklist ''sub.example.com'' [] None)) =
     Inr \<lparr>ret = 0, calls = [Call_data_match (Some ''none'')]\<rparr>"
proof -
  let ?data = "ACLServerNameData_match ex_patterns"
  let ?req = "\<lparr>url = \<lparr>host = Some []\<rparr>\<rparr>"
  have p1: "\<not> useClientRequested (ex_policy False False False)"
    and p2: "\<not> useConsensus (ex_policy False False False)"
    and p3: "\<not> useServerProvided (ex_policy False False False)"
    and q1: "\<not> useClientRequested (ex_policy False True False)"
    and q2: "\<not> useConsensus (ex_policy False True False)"
    and q3: "useServerProvided (ex_policy False True False)"
    by (simp_all add: ex_policy_def)
  have n: "clientRequestedServerName
      \<lparr>tlsClientSni = ''sub.example.com'', serverBump = Some \<lparr>serverCert = None\<rparr>\<rparr> ?req
        = Some ''sub.example.com''"
    by (simp add: clientRequestedServerName_def SBuf_c_str_def NUL_def)
  have f1: "check_cert_domain ?data (ex_field ''other.net'') () =
      Inr \<lparr>retval = 1, cn_buf = map Some ''other.net'' @ [Some NUL] @ replicate 1014 None,
           matched = [Some ''other.net'']\<rparr>"
    using check_cert_domain_ex_field [of "''other.net''" ?data "()"] ex_other_no_match
    by (simp add: NUL_def)
  have f2: "check_cert_domain ?data (ex_field ''mail.example.com'') () =
      Inr \<lparr>retval = 0, cn_buf = map Some ''mail.example.com'' @ [Some NUL] @ replicate 1007 None,
           matched = [Some ''mail.example.com'']\<rparr>"
    using check_cert_domain_ex_field [of "''mail.example.com''" ?data "()"] ex_mail_matches
    by (simp add: NUL_def)
  have e: "matchX509CommonNames (ex_cert [''other.net'', ''mail.example.com''])
             (check_cert_domain ?data) = Inr True"
    by (simp add: ex_cert_def f1 f2)
  show ?thesis
    using match_default_or_server_provided [where chk = ex_validity and mx = matchX509CommonNames
          and data = "ACLServerNameData_match ex_patterns",
          OF p1 p2 ex_request [of "''other.net''" "[]" "Some (ex_cert [''other.net'', ''mail.example.com''])"]
            ex_conn [of "''other.net''" "[]" "Some (ex_cert [''other.net'', ''mail.example.com''])"]]
      match_default_or_server_provided [where chk = ex_validity and mx = matchX509CommonNames
          and data = "ACLServerNameData_match ex_patterns",
          OF p1 p2 ex_request [of "''sub.example.com''" "[]" "None"]
            ex_conn [of "''sub.example.com''" "[]" "None"]]
      match_default_or_server_provided [where chk = ex_validity and mx = matchX509CommonNames
          and data = "ACLServerNameData_match ex_patterns",
          OF q1 q2 ex_request [of "''sub.example.com''" "[]" "None"]
            ex_conn [of "''sub.example.com''" "[]" "None"]]
      p3 q3 ex_sub_matches ex_none_no_match
    by (simp add: n e ex_peer_cert name_or_none_def)
qed




text \<open>
  C7. On a checklist with a request and no connection at all, the check returns what the
  ACL data says of the literal name \<open>none\<close>, and its only call is that one: the result is
  true only when \<open>none\<close> matches the data. The same holds on a connection with an empty
  SNI, no host and no certificate, under every policy: a missing SNI, host or certificate
  gives a value, not a failure.
\<close>

theorem match_no_connection:
  "(request checklist = Some req \<and> conn checklist = None \<longrightarrow>
      ServerNameCheck_match chk mx self data (Some checklist) =
        Inr \<lparr>ret = of_bool (data (Some ''none'')), calls = [Call_data_match (Some ''none'')]\<rparr>)
   \<and> (request checklist = Some req \<and> conn checklist = Some c \<and> tlsClientSni c = []
        \<and> (host (url req) = None \<or> host (url req) = Some []) \<and> peer_cert c = None \<longrightarrow>
      ServerNameCheck_match chk mx self data (Some checklist) =
        Inr \<lparr>ret = of_bool (data (Some ''none'')), calls = [Call_data_match (Some ''none'')]\<rparr>)"
  by (auto simp: ServerNameCheck_match_def match_serverName_def name_or_none_def Let_def
        clientRequestedServerName_def)

theorem match_no_connection_witness:
  "ServerNameCheck_match ex_validity matchX509CommonNames (ex_policy False False False)
      (ACLServerNameData_match ex_patterns)
      (Some \<lparr>request = Some \<lparr>url = \<lparr>host = Some ''plain.org''\<rparr>\<rparr>, conn = None\<rparr>) =
     Inr \<lparr>ret = 0, calls = [Call_data_match (Some ''none'')]\<rparr>
   \<and> ServerNameCheck_match ex_validity matchX509CommonNames (ex_policy False False False)
      (ACLServerNameData_match \<lparr>domains = [''none'']\<rparr>)
      (Some \<lparr>request = Some \<lparr>url = \<lparr>host = Some ''plain.org''\<rparr>\<rparr>, conn = None\<rparr>) =
     Inr \<lparr>ret = 1, calls = [Call_data_match (Some ''none'')]\<rparr>
   \<and> ServerNameCheck_match ex_validity matchX509CommonNames (ex_policy False False True)
      (ACLServerNameData_match ex_patterns)
      (Some (ex_checklist [] [] None)) =
     Inr \<lparr>ret = 0, calls = [Call_data_match (Some ''none'')]\<rparr>"
proof -
  have m: "ACLServerNameData_match \<lparr>domains = [''none'']\<rparr> (Some ''none'')"
    by code_simp
  show ?thesis
    using match_no_connection
        [of "\<lparr>request = Some \<lparr>url = \<lparr>host = Some ''plain.org''\<rparr>\<rparr>, conn = None\<rparr>"
            "\<lparr>url = \<lparr>host = Some ''plain.org''\<rparr>\<rparr>" ex_validity matchX509CommonNames
            "ex_policy False False False" "ACLServerNameData_match ex_patterns"]
      match_no_connection
        [of "\<lparr>request = Some \<lparr>url = \<lparr>host = Some ''plain.org''\<rparr>\<rparr>, conn = None\<rparr>"
            "\<lparr>url = \<lparr>host = Some ''plain.org''\<rparr>\<rparr>" ex_validity matchX509CommonNames
            "ex_policy False False False" "ACLServerNameData_match \<lparr>domains = [''none'']\<rparr>"]
      match_no_connection
        [of "ex_checklist [] [] None" "\<lparr>url = \<lparr>host = Some []\<rparr>\<rparr>"
            ex_validity matchX509CommonNames
            "ex_policy False False True" "ACLServerNameData_match ex_patterns"
            "\<lparr>tlsClientSni = [], serverBump = Some \<lparr>serverCert = None\<rparr>\<rparr>"]
      ex_none_no_match m ex_request ex_conn
    by (simp add: ex_peer_cert)
qed

text \<open>
  C9. The check ends in the failed assertion exactly when the checklist is null (or not a
  filled one) or carries no request. On every checklist that carries a request the
  assertion holds, whatever the connection, the policy and the collaborators are.
\<close>

theorem match_assertion:
  "(ServerNameCheck_match chk mx self data ch = Inl AssertionFailed) =
     (ch = None \<or> (\<exists>checklist. ch = Some checklist \<and> request checklist = None))"
  by (auto simp: ServerNameCheck_match_def match_serverName_def Let_def
        split: option.splits sum.splits)

theorem match_assertion_witness:
  "ServerNameCheck_match ex_validity matchX509CommonNames (ex_policy False False False)
      (ACLServerNameData_match ex_patterns) None = Inl AssertionFailed
   \<and> ServerNameCheck_match ex_validity matchX509CommonNames (ex_policy False False False)
      (ACLServerNameData_match ex_patterns)
      (Some \<lparr>request = None, conn = None\<rparr>) = Inl AssertionFailed
   \<and> ServerNameCheck_match ex_validity matchX509CommonNames (ex_policy False False False)
      (ACLServerNameData_match ex_patterns)
      (Some (ex_checklist ''sub.example.com'' [] None)) \<noteq> Inl AssertionFailed"
  using match_assertion [of ex_validity matchX509CommonNames "ex_policy False False False"
        "ACLServerNameData_match ex_patterns" None]
    match_assertion [of ex_validity matchX509CommonNames "ex_policy False False False"
        "ACLServerNameData_match ex_patterns" "Some \<lparr>request = None, conn = None\<rparr>"]
    match_assertion [of ex_validity matchX509CommonNames "ex_policy False False False"
        "ACLServerNameData_match ex_patterns" "Some (ex_checklist ''sub.example.com'' [] None)"]
  by (simp add: ex_request)

subsection \<open>Configuration\<close>

text \<open>
  C6. For every setting of the three flags, \<open>valid\<close> is true exactly when at most one of
  them is set, and so false exactly when more than one is; with both the client-requested
  and the server-provided flag set it is false.
\<close>

theorem valid_at_most_one:
  "ServerNameCheck_valid self =
     (length (filter id [useClientRequested self, useServerProvided self, useConsensus self])
        \<le> 1)
   \<and> (useClientRequested self \<and> useServerProvided self \<longrightarrow> \<not> ServerNameCheck_valid self)"
  by (simp add: ServerNameCheck_valid_def Let_def)

theorem valid_at_most_one_witness:
  "ServerNameCheck_valid (ex_policy False False False)
   \<and> ServerNameCheck_valid (ex_policy False False True)
   \<and> \<not> ServerNameCheck_valid (ex_policy True True False)
   \<and> \<not> ServerNameCheck_valid (ex_policy True True True)"
  using valid_at_most_one [of "ex_policy False False False"]
    valid_at_most_one [of "ex_policy False False True"]
    valid_at_most_one [of "ex_policy True True False"]
    valid_at_most_one [of "ex_policy True True True"]
  by (simp add: ex_policy_def)

subsection \<open>The domain matcher\<close>

lemma matchDomainName_empty: "matchDomainName [] d flags \<noteq> 0"
  by (simp add: matchDomainName_def Let_def)

text \<open>
  C8. For every pattern set, \<open>ACLServerNameData::match\<close> is false on an absent name (the
  null pointer) and on the empty string; both are values of a total function, not
  failures. The first is the source's own guard; the second rests on the comparison as
  the spec describes it, which matches nothing against an empty candidate.
\<close>

theorem ACLServerNameData_match_absent_or_empty:
  "ACLServerNameData_match self None = False \<and> ACLServerNameData_match self (Some []) = False"
  by (simp add: ACLServerNameData_match_def find_splay_def aclHostDomainCompare_def
        matchDomainName_empty find_None_iff)

theorem ACLServerNameData_match_absent_or_empty_witness:
  "\<not> ACLServerNameData_match ex_patterns None \<and> \<not> ACLServerNameData_match ex_patterns (Some [])
   \<and> ACLServerNameData_match ex_patterns (Some ''plain.org'')"
  using ACLServerNameData_match_absent_or_empty [of ex_patterns] ex_plain_matches
  by simp

end
